theory Spec2Isabelle
  imports Main "HOL-Library.AList"
begin

section \<open>JSON values as Python sees them\<close>

text \<open>
  The bridge (\<^verbatim>\<open>codex_bridge.py\<close>) handles values produced by \<^verbatim>\<open>json.loads\<close> and by the
  HTTP layer: \<^verbatim>\<open>None\<close>, booleans, integers, strings, lists and dicts with string keys.
  A dict is an association list in insertion order; looking a key up is \<open>map_of\<close>.
  JSON numbers with a fraction (Python floats) are left out of the model.
\<close>

datatype json =
    JNull
  | JBool bool
  | JInt int
  | JStr string
  | JArr "json list"
  | JObj "(string \<times> json) list"

text \<open>Python truthiness, as used by \<^verbatim>\<open>x or y\<close>, \<^verbatim>\<open>if x\<close> and \<^verbatim>\<open>not x\<close>.\<close>

fun truthy :: "json \<Rightarrow> bool" where
  "truthy JNull = False"
| "truthy (JBool b) = b"
| "truthy (JInt i) = (i \<noteq> 0)"
| "truthy (JStr s) = (s \<noteq> [])"
| "truthy (JArr xs) = (xs \<noteq> [])"
| "truthy (JObj kvs) = (kvs \<noteq> [])"

text \<open>\<^verbatim>\<open>a or b\<close> on values.\<close>

definition py_or :: "json \<Rightarrow> json \<Rightarrow> json" where
  "py_or a b = (if truthy a then a else b)"

text \<open>\<^verbatim>\<open>d.get(k, default)\<close> and \<^verbatim>\<open>d.get(k)\<close> (default \<^verbatim>\<open>None\<close>) on a dict.\<close>

definition get_default :: "(string \<times> json) list \<Rightarrow> string \<Rightarrow> json \<Rightarrow> json" where
  "get_default d k dflt = (case map_of d k of None \<Rightarrow> dflt | Some v \<Rightarrow> v)"

definition get :: "(string \<times> json) list \<Rightarrow> string \<Rightarrow> json" where
  "get d k = get_default d k JNull"

text \<open>\<^verbatim>\<open>k in d\<close> on a dict.\<close>

definition has_key :: "(string \<times> json) list \<Rightarrow> string \<Rightarrow> bool" where
  "has_key d k = (map_of d k \<noteq> None)"

section \<open>Exceptions\<close>

text \<open>
  \<^verbatim>\<open>CodexError(code, message, data)\<close> and \<^verbatim>\<open>CodexProcessClosed(message)\<close> are the two
  exception classes of the module; the others are the built-in exceptions its statements
  raise. \<^verbatim>\<open>CodexError\<close> stores whatever values it is given, so its three fields are JSON
  values (\<open>JNull\<close> for \<^verbatim>\<open>None\<close>).
\<close>

datatype exn =
    CodexError json json json
  | CodexProcessClosed string
  | ValueError string
  | TypeError
  | AttributeError
  | CancelledError
  | JSONDecodeError
  | UnicodeDecodeError
  | ConnectionResetError string
  | OSError string

section \<open>The result of a run\<close>

text \<open>Dataclass \<^verbatim>\<open>RunResult\<close>.\<close>

record run_result =
  session_id :: string
  codex_session_id :: string
  stop_reason :: json
  output_messages :: "json list"
  events :: "json list"

section \<open>The prompt accumulator\<close>

text \<open>Class \<^verbatim>\<open>_PromptAccumulator\<close>: the collected text fragments and the event log.\<close>

record accumulator =
  assistant_text_parts :: "string list"
  events :: "json list"

definition new_accumulator :: accumulator where
  "new_accumulator = \<lparr>assistant_text_parts = [], events = []\<rparr>"

text \<open>
  \<^verbatim>\<open>ingest\<close>. The two \<^verbatim>\<open>isinstance(..., dict)\<close> guards return before anything is
  recorded; otherwise a text chunk is collected when the update is an
  \<^verbatim>\<open>agent_message_chunk\<close> whose content is a dict of type \<^verbatim>\<open>text\<close> with a non-empty
  string, and the notification is appended to the event log.
\<close>

definition collect_chunk :: "(string \<times> json) list \<Rightarrow> accumulator \<Rightarrow> accumulator" where
  "collect_chunk update acc =
     (case py_or (get update ''content'') (JObj []) of
        JObj content \<Rightarrow>
          (if get content ''type'' = JStr ''text'' then
             (case get content ''text'' of
                JStr text \<Rightarrow>
                  (if text \<noteq> [] then
                     acc\<lparr>assistant_text_parts := assistant_text_parts acc @ [text]\<rparr>
                   else acc)
              | _ \<Rightarrow> acc)
           else acc)
      | _ \<Rightarrow> acc)"

definition ingest :: "json \<Rightarrow> accumulator \<Rightarrow> accumulator" where
  "ingest notification acc =
     (case notification of
        JObj n \<Rightarrow>
          (case py_or (get n ''update'') (JObj []) of
             JObj update \<Rightarrow>
               (let kind = get update ''sessionUpdate'';
                    acc1 = (if kind = JStr ''agent_message_chunk''
                            then collect_chunk update acc else acc)
                in acc1\<lparr>events := events acc1 @ [notification]\<rparr>)
           | _ \<Rightarrow> acc)
      | _ \<Rightarrow> acc)"

text \<open>Ingesting a sequence of notifications, first to last.\<close>

fun ingest_all :: "json list \<Rightarrow> accumulator \<Rightarrow> accumulator" where
  "ingest_all [] acc = acc"
| "ingest_all (n # ns) acc = ingest_all ns (ingest n acc)"

text \<open>\<^verbatim>\<open>build_output\<close>.\<close>

definition build_output :: "accumulator \<Rightarrow> json list" where
  "build_output acc =
     (if assistant_text_parts acc = [] then []
      else [JObj [(''role'', JStr ''assistant''),
                  (''parts'', JArr [JObj [(''content_type'', JStr ''text/plain''),
                                          (''content_encoding'', JStr ''plain''),
                                          (''content'', JStr (concat (assistant_text_parts acc)))]])]])"

text \<open>The property \<^verbatim>\<open>assistant_token_count\<close>.\<close>

definition assistant_token_count :: "accumulator \<Rightarrow> nat" where
  "assistant_token_count acc = sum_list (map length (assistant_text_parts acc))"

text \<open>
  The text fragment a notification contributes, following the specification's words: the
  nested update object has kind "agent message chunk" and its content is of text type
  with non-empty text.
\<close>

definition text_fragment :: "json \<Rightarrow> string option" where
  "text_fragment notification =
     (case notification of
        JObj n \<Rightarrow>
          (case map_of n ''update'' of
             Some (JObj update) \<Rightarrow>
               (if map_of update ''sessionUpdate'' = Some (JStr ''agent_message_chunk'') then
                  (case map_of update ''content'' of
                     Some (JObj content) \<Rightarrow>
                       (if map_of content ''type'' = Some (JStr ''text'') then
                          (case map_of content ''text'' of
                             Some (JStr text) \<Rightarrow> if text = [] then None else Some text
                           | _ \<Rightarrow> None)
                        else None)
                   | _ \<Rightarrow> None)
                else None)
           | _ \<Rightarrow> None)
      | _ \<Rightarrow> None)"

text \<open>A chunk notification as the agent sends it, and a tool-call notification.\<close>

definition chunk :: "string \<Rightarrow> json" where
  "chunk t = JObj [(''sessionId'', JStr ''a1''),
                   (''update'', JObj [(''sessionUpdate'', JStr ''agent_message_chunk''),
                                      (''content'', JObj [(''type'', JStr ''text''),
                                                          (''text'', JStr t)])])]"

definition tool_call :: json where
  "tool_call = JObj [(''sessionId'', JStr ''a1''),
                     (''update'', JObj [(''sessionUpdate'', JStr ''tool_call'')])]"

text \<open>The notifications that \<^verbatim>\<open>ingest\<close> records: dicts whose \<^verbatim>\<open>update\<close> is falsy or a dict.\<close>

definition recorded :: "json \<Rightarrow> bool" where
  "recorded notification =
     (case notification of
        JObj n \<Rightarrow> (case py_or (get n ''update'') (JObj []) of JObj u \<Rightarrow> True | _ \<Rightarrow> False)
      | _ \<Rightarrow> False)"

section \<open>The transport: class \<^verbatim>\<open>CodexProcess\<close>\<close>

text \<open>
  An \<^verbatim>\<open>asyncio.Future\<close> is pending, or done with a result, with an exception, or by
  cancellation. Futures are shared between the caller that awaits one and the reader
  that resolves it, so they live in a store indexed by address and the pending table
  maps a request identifier to an address.
\<close>

datatype future = Pending | Result json | Exception exn | Cancelled

text \<open>\<^verbatim>\<open>future.done()\<close>.\<close>

definition is_done :: "future \<Rightarrow> bool" where
  "is_done f = (f \<noteq> Pending)"

text \<open>
  \<^verbatim>\<open>if not future.done(): future.set_result(v)\<close> and the same with \<^verbatim>\<open>set_exception\<close>:
  every resolution in the module is under this guard.
\<close>

definition set_result :: "nat \<Rightarrow> json \<Rightarrow> (nat \<Rightarrow> future) \<Rightarrow> (nat \<Rightarrow> future)" where
  "set_result a v fs = (if is_done (fs a) then fs else fs(a := Result v))"

definition set_exception :: "nat \<Rightarrow> exn \<Rightarrow> (nat \<Rightarrow> future) \<Rightarrow> (nat \<Rightarrow> future)" where
  "set_exception a e fs = (if is_done (fs a) then fs else fs(a := Exception e))"

text \<open>
  \<^verbatim>\<open>await future\<close>: nothing while the future is pending, then its result, or its
  exception raised in the awaiting caller.
\<close>

fun await :: "future \<Rightarrow> (exn + json) option" where
  "await Pending = None"
| "await (Result v) = Some (Inr v)"
| "await (Exception e) = Some (Inl e)"
| "await Cancelled = Some (Inl CancelledError)"

text \<open>
  The loop \<^verbatim>\<open>for future in self._pending.values(): if not future.done():
  future.set_exception(...)\<close>, over the addresses in the table.
\<close>

fun fail_all :: "exn \<Rightarrow> nat list \<Rightarrow> (nat \<Rightarrow> future) \<Rightarrow> (nat \<Rightarrow> future)" where
  "fail_all e [] fs = fs"
| "fail_all e (a # as) fs = fail_all e as (set_exception a e fs)"

text \<open>
  The child process handle: its \<^verbatim>\<open>returncode\<close> (\<^verbatim>\<open>None\<close> while it runs), the environment
  it was spawned with, and the messages written to its standard input.
\<close>

record subprocess =
  returncode :: "int option"
  environment :: "(string \<times> string) list"
  stdin :: "json list"

text \<open>
  A reader task: running, finished by returning, ended by an exception, or cancelled.
\<close>

datatype task = Running | Finished | Failed exn | TaskCancelled

record transport =
  proc :: "subprocess option"
  stdout_task :: "task option"
  stderr_task :: "task option"
  pending :: "(string \<times> nat) list"
  notification_handler :: bool
  id_counter :: nat
  current_token :: "string option"
  futures :: "nat \<Rightarrow> future"
  next_future :: nat

text \<open>\<^verbatim>\<open>CodexProcess.__init__\<close>, followed by \<^verbatim>\<open>set_notification_handler\<close> as the manager calls it.\<close>

definition new_transport :: transport where
  "new_transport = \<lparr>proc = None, stdout_task = None, stderr_task = None, pending = [],
                     notification_handler = True, id_counter = 0, current_token = None,
                     futures = (\<lambda>_. Pending), next_future = 0\<rparr>"

text \<open>The test \<^verbatim>\<open>self._proc is not None and self._proc.returncode is None\<close>.\<close>

definition is_running :: "transport \<Rightarrow> bool" where
  "is_running st = (case proc st of None \<Rightarrow> False | Some p \<Rightarrow> returncode p = None)"

text \<open>
  \<^verbatim>\<open>task.cancel()\<close> followed later by \<^verbatim>\<open>await task\<close> under
  \<^verbatim>\<open>suppress(CancelledError)\<close>: a running reader is cancelled at its \<^verbatim>\<open>readline\<close>, a
  finished or cancelled one stays as it is, and awaiting a task that ended by another
  exception raises that exception again.
\<close>

fun cancel :: "task \<Rightarrow> task" where
  "cancel Running = TaskCancelled"
| "cancel t = t"

fun await_suppressed :: "task option \<Rightarrow> exn option" where
  "await_suppressed (Some (Failed e)) = Some e"
| "await_suppressed _ = None"

text \<open>
  \<^verbatim>\<open>_shutdown_locked\<close>. The argument \<open>status\<close> is the exit status the child reports once it
  has been terminated (or killed after the five seconds of grace). The result is the
  exception that escaped, if any, and the state at that point.
\<close>

definition shutdown_locked :: "int \<Rightarrow> transport \<Rightarrow> exn option \<times> transport" where
  "shutdown_locked status st =
     (let st1 = st\<lparr>stdout_task := map_option cancel (stdout_task st),
                   stderr_task := map_option cancel (stderr_task st)\<rparr>;
          st2 = (case proc st1 of
                   Some p \<Rightarrow> if returncode p = None
                             then st1\<lparr>proc := Some (p\<lparr>returncode := Some status\<rparr>)\<rparr>
                             else st1
                 | None \<Rightarrow> st1)
      in case await_suppressed (stdout_task st2) of
           Some e \<Rightarrow> (Some e, st2)
         | None \<Rightarrow>
             (case await_suppressed (stderr_task st2) of
                Some e \<Rightarrow> (Some e, st2)
              | None \<Rightarrow>
                  (None, st2\<lparr>stdout_task := None, stderr_task := None, proc := None,
                             current_token := None,
                             futures := fail_all (CodexProcessClosed ''codex-acp process stopped'')
                                          (map snd (pending st2)) (futures st2),
                             pending := []\<rparr>)))"

text \<open>
  Neither reader task has ended by an exception, so awaiting them in the shutdown raises
  nothing.
\<close>

definition readers_intact :: "transport \<Rightarrow> bool" where
  "readers_intact st =
     (await_suppressed (stdout_task st) = None \<and> await_suppressed (stderr_task st) = None)"

text \<open>\<^verbatim>\<open>stop\<close>: the shutdown under the lock.\<close>

definition stop :: "int \<Rightarrow> transport \<Rightarrow> exn option \<times> transport" where
  "stop status st = shutdown_locked status st"

text \<open>
  The environment of the child: a copy of \<^verbatim>\<open>os.environ\<close> without \<^verbatim>\<open>CODEX_API_KEY\<close>, and
  with \<^verbatim>\<open>OPENAI_API_KEY\<close> set to the token when the token is truthy and removed otherwise.
\<close>

definition child_env :: "(string \<times> string) list \<Rightarrow> string option \<Rightarrow> (string \<times> string) list" where
  "child_env environ token =
     (let env = AList.delete ''CODEX_API_KEY'' environ
      in case token of
           Some t \<Rightarrow> if t \<noteq> [] then AList.update ''OPENAI_API_KEY'' t env
                     else AList.delete ''OPENAI_API_KEY'' env
         | None \<Rightarrow> AList.delete ''OPENAI_API_KEY'' env)"

text \<open>
  \<^verbatim>\<open>ensure_started\<close>. \<open>environ\<close> is \<^verbatim>\<open>os.environ\<close>, \<open>status\<close> the exit status of the child being
  replaced, and \<open>spawn\<close> the exception of \<^verbatim>\<open>create_subprocess_exec\<close> when it fails.
\<close>

definition ensure_started ::
  "(string \<times> string) list \<Rightarrow> int \<Rightarrow> exn option \<Rightarrow> string option \<Rightarrow> transport
     \<Rightarrow> (exn + bool) \<times> transport" where
  "ensure_started environ status spawn token st =
     (if is_running st \<and> token = current_token st
      then (Inr False, st)
      else
        (case shutdown_locked status st of
           (Some e, st1) \<Rightarrow> (Inl e, st1)
         | (None, st1) \<Rightarrow>
             (case spawn of
                Some e \<Rightarrow> (Inl e, st1)
              | None \<Rightarrow>
                  (Inr True,
                   st1\<lparr>proc := Some \<lparr>returncode = None,
                                      environment = child_env environ token,
                                      stdin = []\<rparr>,
                       current_token := token,
                       stdout_task := Some Running,
                       stderr_task := Some Running\<rparr>))))"

text \<open>Python's \<^verbatim>\<open>str\<close> on integers: the decimal digits, with a sign when negative.\<close>

fun str_nat :: "nat \<Rightarrow> string" where
  "str_nat n = (if n < 10 then [''0123456789'' ! n]
                else str_nat (n div 10) @ [''0123456789'' ! (n mod 10)])"

declare str_nat.simps [simp del]

definition str_int :: "int \<Rightarrow> string" where
  "str_int i = (if i < 0 then CHR ''-'' # str_nat (nat (- i)) else str_nat (nat i))"

text \<open>
  Python's \<^verbatim>\<open>str\<close> on a JSON value. On a list or a dict it is \<^verbatim>\<open>repr\<close>, which is taken as
  the parameter \<open>repr\<close> and left open.
\<close>

fun py_str :: "(json \<Rightarrow> string) \<Rightarrow> json \<Rightarrow> string" where
  "py_str repr JNull = ''None''"
| "py_str repr (JBool b) = (if b then ''True'' else ''False'')"
| "py_str repr (JInt i) = str_int i"
| "py_str repr (JStr s) = s"
| "py_str repr (JArr xs) = repr (JArr xs)"
| "py_str repr (JObj kvs) = repr (JObj kvs)"

text \<open>
  \<^verbatim>\<open>request\<close>, up to the final \<^verbatim>\<open>await future\<close>. The outcome of writing to the child's
  standard input is an argument. The result is the exception raised, or the address of
  the future the caller then awaits.
\<close>

datatype write_result = Written | BrokenPipeError string | WriteFailed exn

definition request_message :: "string \<Rightarrow> string \<Rightarrow> json \<Rightarrow> json" where
  "request_message request_id method params =
     JObj [(''jsonrpc'', JStr ''2.0''), (''id'', JStr request_id),
           (''method'', JStr method), (''params'', py_or params (JObj []))]"

definition request ::
  "write_result \<Rightarrow> string \<Rightarrow> json \<Rightarrow> transport \<Rightarrow> (exn + nat) \<times> transport" where
  "request write method params st =
     (case proc st of
        None \<Rightarrow> (Inl (CodexProcessClosed ''codex-acp process is not running''), st)
      | Some p \<Rightarrow>
          (let request_id = str_nat (id_counter st + 1);
               message = request_message request_id method params;
               fut = next_future st;
               st1 = st\<lparr>id_counter := id_counter st + 1,
                         futures := (futures st)(fut := Pending),
                         next_future := fut + 1,
                         pending := AList.update request_id fut (pending st)\<rparr>
           in case write of
                Written \<Rightarrow>
                  (Inr fut, st1\<lparr>proc := Some (p\<lparr>stdin := stdin p @ [message]\<rparr>)\<rparr>)
              | BrokenPipeError msg \<Rightarrow>
                  (Inl (CodexProcessClosed msg),
                   st1\<lparr>futures := set_exception fut (CodexProcessClosed msg) (futures st1)\<rparr>)
              | WriteFailed e \<Rightarrow> (Inl e, st1)))"

subsection \<open>The reader of the child's standard output\<close>

text \<open>
  \<^verbatim>\<open>str.strip()\<close>: leading and trailing whitespace removed (the whitespace characters
  below code point 256).
\<close>

definition is_space :: "char \<Rightarrow> bool" where
  "is_space c = (of_char c \<in> {9, 10, 11, 12, 13, 28, 29, 30, 31, 32, 133, 160 :: nat})"

definition strip :: "string \<Rightarrow> string" where
  "strip s = rev (dropWhile is_space (rev (dropWhile is_space s)))"

text \<open>
  \<^verbatim>\<open>k in message\<close>: a key of a dict, an element of a list, a substring of a string; on any
  other value the test raises \<^verbatim>\<open>TypeError\<close>.
\<close>

fun has_substring :: "string \<Rightarrow> string \<Rightarrow> bool" where
  "has_substring k [] = (k = [])"
| "has_substring k (c # cs) = (take (length k) (c # cs) = k \<or> has_substring k cs)"

fun py_in :: "string \<Rightarrow> json \<Rightarrow> exn + bool" where
  "py_in k (JObj m) = Inr (has_key m k)"
| "py_in k (JArr xs) = Inr (JStr k \<in> set xs)"
| "py_in k (JStr s) = Inr (has_substring k s)"
| "py_in k _ = Inl TypeError"

text \<open>
  What one pass of the loop body did: the branch taken, with what it logs or dispatches.
  \<open>DecodeFailed\<close> and \<open>NoPending\<close> are the branches that log (an error, a warning) and
  \<^verbatim>\<open>continue\<close>; \<open>Notified\<close> is the task created for the notification handler; \<open>Raised\<close>
  is an exception that escapes the loop.
\<close>

datatype outcome =
    Blank
  | DecodeFailed string
  | NoPending string
  | Resolved nat
  | Notified json json
  | NoHandler
  | Unexpected
  | Raised exn

text \<open>The branch \<^verbatim>\<open>if "id" in message\<close> for a dict \<open>m\<close>.\<close>

definition handle_response ::
  "(json \<Rightarrow> string) \<Rightarrow> (string \<times> json) list \<Rightarrow> transport \<Rightarrow> outcome \<times> transport" where
  "handle_response repr m st =
     (let request_id = py_str repr (get m ''id'')
      in case map_of (pending st) request_id of
           None \<Rightarrow> (NoPending request_id, st)
         | Some fut \<Rightarrow>
             (let st1 = st\<lparr>pending := AList.delete request_id (pending st)\<rparr>
              in if has_key m ''error'' \<and> get m ''error'' \<noteq> JNull then
                   (if is_done (futures st1 fut) then (Resolved fut, st1)
                    else
                      (case get m ''error'' of
                         JObj error_obj \<Rightarrow>
                           (Resolved fut,
                            st1\<lparr>futures := (futures st1)
                                   (fut := Exception
                                      (CodexError
                                         (get_default error_obj ''code'' (JInt (- 32001)))
                                         (get_default error_obj ''message''
                                            (JStr ''Unknown error''))
                                         (get error_obj ''data'')))\<rparr>)
                       | _ \<Rightarrow> (Raised AttributeError, st1)))
                 else
                   (Resolved fut,
                    st1\<lparr>futures := set_result fut (get m ''result'') (futures st1)\<rparr>)))"

text \<open>The dispatch on a decoded message.\<close>

definition handle_message ::
  "(json \<Rightarrow> string) \<Rightarrow> json \<Rightarrow> transport \<Rightarrow> outcome \<times> transport" where
  "handle_message repr message st =
     (case py_in ''id'' message of
        Inl e \<Rightarrow> (Raised e, st)
      | Inr True \<Rightarrow>
          (case message of
             JObj m \<Rightarrow> handle_response repr m st
           | _ \<Rightarrow> (Raised TypeError, st))
      | Inr False \<Rightarrow>
          (case py_in ''method'' message of
             Inl e \<Rightarrow> (Raised e, st)
           | Inr True \<Rightarrow>
               (if notification_handler st then
                  (case message of
                     JObj m \<Rightarrow>
                       (Notified (get m ''method'') (py_or (get m ''params'') (JObj [])), st)
                   | _ \<Rightarrow> (Raised TypeError, st))
                else (NoHandler, st))
           | Inr False \<Rightarrow> (Unexpected, st)))"

text \<open>
  The messages of JSON-RPC 2.0: objects, whose \<^verbatim>\<open>error\<close> member, when present and not null,
  is an object.
\<close>

definition conformant :: "json \<Rightarrow> bool" where
  "conformant message =
     (case message of
        JObj m \<Rightarrow> (case get m ''error'' of JNull \<Rightarrow> True | JObj e \<Rightarrow> True | _ \<Rightarrow> False)
      | _ \<Rightarrow> False)"

text \<open>
  What a response resolves its request with: the \<^verbatim>\<open>CodexError\<close> built from the error
  object, or the \<^verbatim>\<open>result\<close> member.
\<close>

definition resolution :: "(string \<times> json) list \<Rightarrow> future" where
  "resolution m =
     (case get m ''error'' of
        JObj e \<Rightarrow> Exception (CodexError (get_default e ''code'' (JInt (- 32001)))
                               (get_default e ''message'' (JStr ''Unknown error''))
                               (get e ''data''))
      | _ \<Rightarrow> Result (get m ''result''))"

text \<open>
  The body of the loop for one line of bytes. \<open>decode\<close> is \<^verbatim>\<open>line.decode("utf-8")\<close>, which
  raises \<^verbatim>\<open>UnicodeDecodeError\<close> outside any \<^verbatim>\<open>try\<close>; \<open>loads\<close> is \<^verbatim>\<open>json.loads\<close>, whose
  \<^verbatim>\<open>JSONDecodeError\<close> alone is caught, logged and skipped. Any other exception escapes.
\<close>

definition read_line ::
  "(string \<Rightarrow> exn + string) \<Rightarrow> (string \<Rightarrow> exn + json) \<Rightarrow> (json \<Rightarrow> string) \<Rightarrow> string
     \<Rightarrow> transport \<Rightarrow> outcome \<times> transport" where
  "read_line decode loads repr line st =
     (case decode line of
        Inl e \<Rightarrow> (Raised e, st)
      | Inr text \<Rightarrow>
          (let raw = strip text
           in if raw = [] then (Blank, st)
              else (case loads raw of
                      Inl e \<Rightarrow> if e = JSONDecodeError then (DecodeFailed raw, st)
                               else (Raised e, st)
                    | Inr message \<Rightarrow> handle_message repr message st)))"

text \<open>The statements after the loop, reached at end-of-stream.\<close>

definition stdout_closed :: "transport \<Rightarrow> transport" where
  "stdout_closed st =
     st\<lparr>futures := fail_all (CodexProcessClosed ''codex-acp stdout closed'')
                      (map snd (pending st)) (futures st),
        pending := [],
        stdout_task := Some Finished\<rparr>"

text \<open>
  \<^verbatim>\<open>_read_stdout\<close> over what the successive calls of \<^verbatim>\<open>readline\<close> give until the child
  closes the stream: a line of bytes, or the \<^verbatim>\<open>ValueError\<close> that \<^verbatim>\<open>readline\<close> raises for a
  line longer than the stream's limit of 64 KiB. \<^verbatim>\<open>readline\<close> returns the empty string at
  end-of-stream only. An exception that escapes the loop ends the task without the
  statements after the loop, and nothing more is read.
\<close>

fun read_stdout ::
  "(string \<Rightarrow> exn + string) \<Rightarrow> (string \<Rightarrow> exn + json) \<Rightarrow> (json \<Rightarrow> string)
     \<Rightarrow> (exn + string) list \<Rightarrow> transport \<Rightarrow> outcome list \<times> transport" where
  "read_stdout decode loads repr [] st = ([], stdout_closed st)"
| "read_stdout decode loads repr (Inl e # rest) st =
     ([Raised e], st\<lparr>stdout_task := Some (Failed e)\<rparr>)"
| "read_stdout decode loads repr (Inr line # rest) st =
     (if line = [] then ([], stdout_closed st)
      else
        (case read_line decode loads repr line st of
           (out, st1) \<Rightarrow>
             (case out of
                Raised e \<Rightarrow> ([out], st1\<lparr>stdout_task := Some (Failed e)\<rparr>)
              | _ \<Rightarrow>
                  (case read_stdout decode loads repr rest st1 of
                     (outs, st2) \<Rightarrow> (out # outs, st2)))))"

section \<open>Building the prompt: \<^verbatim>\<open>_build_prompt_payload\<close>\<close>

text \<open>
  \<^verbatim>\<open>for x in v\<close>: the elements of a list, the characters of a string, the keys of a dict;
  any other value is not iterable.
\<close>

fun iterate :: "json \<Rightarrow> exn + json list" where
  "iterate (JArr xs) = Inr xs"
| "iterate (JStr s) = Inr (map (\<lambda>c. JStr [c]) s)"
| "iterate (JObj kvs) = Inr (map (\<lambda>kv. JStr (fst kv)) kvs)"
| "iterate _ = Inl TypeError"

text \<open>Membership in a Python set hashes the value: lists and dicts are unhashable.\<close>

fun hashable :: "json \<Rightarrow> bool" where
  "hashable (JArr xs) = False"
| "hashable (JObj kvs) = False"
| "hashable _ = True"

text \<open>
  The body of the inner loop for one part: the part is skipped (\<open>Inr None\<close>), gives one
  content block, or the set membership test raises.
\<close>

fun part_block :: "json \<Rightarrow> exn + json option" where
  "part_block (JObj part) =
     (let content_type = py_or (get part ''content_type'') (get part ''type'')
      in if \<not> hashable content_type then Inl TypeError
         else if content_type \<notin> {JStr ''text/plain'', JStr ''text''} then Inr None
         else
           (let text = py_or (py_or (get part ''content'') (get part ''text'')) (JStr [])
            in if truthy text
               then Inr (Some (JObj [(''type'', JStr ''text''), (''text'', text)]))
               else Inr None))"
| "part_block _ = Inr None"

fun parts_blocks :: "json list \<Rightarrow> exn + json list" where
  "parts_blocks [] = Inr []"
| "parts_blocks (part # rest) =
     (case part_block part of
        Inl e \<Rightarrow> Inl e
      | Inr b \<Rightarrow>
          (case parts_blocks rest of
             Inl e \<Rightarrow> Inl e
           | Inr bs \<Rightarrow> Inr ((case b of None \<Rightarrow> [] | Some block \<Rightarrow> [block]) @ bs)))"

text \<open>The body of the outer loop for one message.\<close>

fun message_blocks :: "json \<Rightarrow> exn + json list" where
  "message_blocks (JObj message) =
     (case iterate (py_or (get message ''parts'') (JArr [])) of
        Inl e \<Rightarrow> Inl e
      | Inr parts \<Rightarrow> parts_blocks parts)"
| "message_blocks _ = Inl AttributeError"

text \<open>The content blocks collected over all messages, in order.\<close>

fun collect_blocks :: "json list \<Rightarrow> exn + json list" where
  "collect_blocks [] = Inr []"
| "collect_blocks (message # rest) =
     (case message_blocks message of
        Inl e \<Rightarrow> Inl e
      | Inr bs \<Rightarrow>
          (case collect_blocks rest of
             Inl e \<Rightarrow> Inl e
           | Inr cs \<Rightarrow> Inr (bs @ cs)))"

definition build_prompt_payload :: "json list \<Rightarrow> exn + json list" where
  "build_prompt_payload messages =
     (case collect_blocks messages of
        Inl e \<Rightarrow> Inl e
      | Inr content_blocks \<Rightarrow>
          if content_blocks = []
          then Inl (ValueError ''Prompt payload did not contain any plain text content'')
          else Inr content_blocks)"

section \<open>The orchestrator: class \<^verbatim>\<open>CodexManager\<close>\<close>

text \<open>
  The manager's fields. Subscriber queues are objects shared between the registry and the
  call that reads them, so they live in a store indexed by address; \<open>session_watchers\<close>
  maps an agent session identifier to the addresses of its queues.
\<close>

record manager =
  process :: transport
  workspace :: string
  initialized :: bool
  client_to_codex :: "(string \<times> string) list"
  session_watchers :: "(string \<times> nat list) list"
  auth_methods :: "json set"
  queues :: "nat \<Rightarrow> json list"
  next_queue :: nat

definition new_manager :: "string \<Rightarrow> manager" where
  "new_manager ws = \<lparr>process = new_transport, workspace = ws, initialized = False,
                      client_to_codex = [], session_watchers = [], auth_methods = {},
                      queues = (\<lambda>_. []), next_queue = 0\<rparr>"

text \<open>
  What the manager's calls meet outside it: the process environment, the exit status of a
  child that is replaced, whether the spawn fails, how the agent eventually resolves the
  request with a given method and parameters (the value awaited from \<^verbatim>\<open>request\<close>: a result
  or an exception), the notifications the reader hands to the handler while a prompt is
  outstanding, and Python's \<^verbatim>\<open>repr\<close>. Every request is taken to be resolved eventually.
  What \<^verbatim>\<open>request\<close> and the reader do to the transport for such an exchange (the identifier,
  the pending entry, the future) is the subject of the previous section and is not
  repeated in the manager's copy of the transport, which changes with \<^verbatim>\<open>ensure_started\<close>
  only.
\<close>

record world =
  os_environ :: "(string \<times> string) list"
  exit_status :: int
  spawn_error :: "exn option"
  agent_reply :: "string \<Rightarrow> json \<Rightarrow> exn + json"
  notifications :: "(json \<times> json) list"
  py_repr :: "json \<Rightarrow> string"

text \<open>\<^verbatim>\<open>if token:\<close> on an optional string.\<close>

definition token_given :: "string option \<Rightarrow> bool" where
  "token_given token = (case token of None \<Rightarrow> False | Some t \<Rightarrow> t \<noteq> [])"

text \<open>
  The set comprehension over \<^verbatim>\<open>(init_result or {}).get("authMethods", [])\<close>: the \<^verbatim>\<open>id\<close> of
  every element that is a dict with an \<^verbatim>\<open>id\<close>.
\<close>

fun collect_ids :: "json list \<Rightarrow> exn + json set" where
  "collect_ids [] = Inr {}"
| "collect_ids (method # rest) =
     (case method of
        JObj d \<Rightarrow>
          (if has_key d ''id'' then
             (if hashable (get d ''id'') then
                (case collect_ids rest of
                   Inl e \<Rightarrow> Inl e
                 | Inr ids \<Rightarrow> Inr (insert (get d ''id'') ids))
              else Inl TypeError)
           else collect_ids rest)
      | _ \<Rightarrow> collect_ids rest)"

definition auth_method_ids :: "json \<Rightarrow> exn + json set" where
  "auth_method_ids init_result =
     (case py_or init_result (JObj []) of
        JObj r \<Rightarrow>
          (case iterate (get_default r ''authMethods'' (JArr [])) of
             Inl e \<Rightarrow> Inl e
           | Inr methods \<Rightarrow> collect_ids methods)
      | _ \<Rightarrow> Inl AttributeError)"

text \<open>\<^verbatim>\<open>_ensure_initialized\<close>: the exception raised, if any, and the manager.\<close>

definition ensure_initialized :: "world \<Rightarrow> string option \<Rightarrow> manager \<Rightarrow> exn option \<times> manager" where
  "ensure_initialized w token m =
     (if initialized m then (None, m)
      else
        (case agent_reply w ''initialize''
                (JObj [(''protocolVersion'', JInt 1),
                       (''clientCapabilities'',
                          JObj [(''fs'', JObj [(''readTextFile'', JBool False),
                                               (''writeTextFile'', JBool False)]),
                                (''terminal'', JBool False)])]) of
           Inl e \<Rightarrow> (Some e, m)
         | Inr init_result \<Rightarrow>
             (case auth_method_ids init_result of
                Inl e \<Rightarrow> (Some e, m)
              | Inr ids \<Rightarrow>
                  (let m1 = m\<lparr>auth_methods := ids\<rparr>
                   in if token_given token then
                        (if JStr ''openai-api-key'' \<notin> ids then
                           (Some (CodexError (JInt (- 32000))
                                    (JStr ''Codex agent does not support OPENAI_API_KEY authentication'')
                                    JNull),
                            m1)
                         else
                           (case agent_reply w ''authenticate''
                                   (JObj [(''methodId'', JStr ''openai-api-key'')]) of
                              Inl e \<Rightarrow> (Some e, m1)
                            | Inr r \<Rightarrow> (None, m1\<lparr>initialized := True\<rparr>)))
                      else (None, m1\<lparr>initialized := True\<rparr>)))))"

text \<open>\<^verbatim>\<open>_ensure_session\<close>.\<close>

definition ensure_session :: "world \<Rightarrow> string \<Rightarrow> manager \<Rightarrow> (exn + string) \<times> manager" where
  "ensure_session w client_session_id m =
     (case map_of (client_to_codex m) client_session_id of
        Some codex_session \<Rightarrow> (Inr codex_session, m)
      | None \<Rightarrow>
          (case agent_reply w ''session/new''
                  (JObj [(''cwd'', JStr (workspace m)), (''mcpServers'', JArr [])]) of
             Inl e \<Rightarrow> (Inl e, m)
           | Inr response \<Rightarrow>
               (case response of
                  JObj r \<Rightarrow>
                    (let codex_session_raw = get r ''sessionId''
                     in if \<not> truthy codex_session_raw then
                          (Inl (CodexError (JInt (- 32603))
                                  (JStr ''Codex session/new did not return a sessionId'') JNull),
                           m)
                        else
                          (let codex_session = py_str (py_repr w) codex_session_raw
                           in (Inr codex_session,
                               m\<lparr>client_to_codex :=
                                    AList.update client_session_id codex_session
                                      (client_to_codex m)\<rparr>)))
                | _ \<Rightarrow> (Inl AttributeError, m))))"

text \<open>
  \<^verbatim>\<open>_handle_notification\<close>, run as a task of its own: an exception stays in that task.
\<close>

definition handle_notification ::
  "(json \<Rightarrow> string) \<Rightarrow> json \<Rightarrow> json \<Rightarrow> manager \<Rightarrow> exn option \<times> manager" where
  "handle_notification repr method params m =
     (if method \<noteq> JStr ''session/update'' then (None, m)
      else
        (case params of
           JObj p \<Rightarrow>
             (let sid = py_str repr (get_default p ''sessionId'' (JStr []))
              in if sid = [] then (None, m)
                 else
                   (None,
                    m\<lparr>queues :=
                         fold (\<lambda>queue qs. qs(queue := qs queue @ [params]))
                           (case map_of (session_watchers m) sid of
                              None \<Rightarrow> []
                            | Some watchers \<Rightarrow> watchers)
                           (queues m)\<rparr>))
         | _ \<Rightarrow> (Some AttributeError, m)))"

fun deliver :: "(json \<Rightarrow> string) \<Rightarrow> (json \<times> json) list \<Rightarrow> manager \<Rightarrow> manager" where
  "deliver repr [] m = m"
| "deliver repr ((method, params) # rest) m =
     deliver repr rest (snd (handle_notification repr method params m))"

text \<open>\<^verbatim>\<open>_detach_watcher\<close>.\<close>

definition detach_watcher :: "string \<Rightarrow> nat \<Rightarrow> manager \<Rightarrow> manager" where
  "detach_watcher sid queue m =
     (case map_of (session_watchers m) sid of
        None \<Rightarrow> m
      | Some watchers \<Rightarrow>
          if watchers = [] then m
          else
            (let remaining = remove1 queue watchers
             in if remaining = []
                then m\<lparr>session_watchers := AList.delete sid (session_watchers m)\<rparr>
                else m\<lparr>session_watchers :=
                         AList.update sid remaining (session_watchers m)\<rparr>))"

text \<open>
  The statements that create a queue and register it, the same in \<^verbatim>\<open>run_prompt\<close> and in
  \<^verbatim>\<open>stream_session\<close>: \<^verbatim>\<open>queue = asyncio.Queue()\<close>,
  \<^verbatim>\<open>watchers = self._session_watchers.setdefault(codex_session, [])\<close>,
  \<^verbatim>\<open>watchers.append(queue)\<close>.
\<close>

definition attach_watcher :: "string \<Rightarrow> manager \<Rightarrow> nat \<times> manager" where
  "attach_watcher codex_session m =
     (let queue = next_queue m;
          watchers = (case map_of (session_watchers m) codex_session of
                        None \<Rightarrow> []
                      | Some ws \<Rightarrow> ws)
      in (queue,
          m\<lparr>queues := (queues m)(queue := []),
            next_queue := queue + 1,
            session_watchers :=
              AList.update codex_session (watchers @ [queue]) (session_watchers m)\<rparr>))"

text \<open>
  The first statements of \<^verbatim>\<open>run_prompt\<close>: start the child, reset the manager when the
  child was restarted, ensure the handshake, resolve the agent session.
\<close>

definition open_session ::
  "world \<Rightarrow> string option \<Rightarrow> string \<Rightarrow> manager \<Rightarrow> (exn + string) \<times> manager" where
  "open_session w token client_session m =
     (case ensure_started (os_environ w) (exit_status w) (spawn_error w) token (process m) of
        (Inl e, p) \<Rightarrow> (Inl e, m\<lparr>process := p\<rparr>)
      | (Inr restarted, p) \<Rightarrow>
          (let m1 = (if restarted
                     then m\<lparr>process := p, initialized := False, client_to_codex := [],
                            session_watchers := []\<rparr>
                     else m\<lparr>process := p\<rparr>)
           in case ensure_initialized w token m1 of
                (Some e, m2) \<Rightarrow> (Inl e, m2)
              | (None, m2) \<Rightarrow> ensure_session w client_session m2))"

text \<open>
  \<^verbatim>\<open>run_prompt\<close>. The notifications of the world are handed to the handler while the
  prompt request is outstanding; the loop and the final sweep together ingest the whole
  content of the call's queue, in order. An exception of the prompt request, or of
  reading its \<^verbatim>\<open>stopReason\<close>, passes through the \<^verbatim>\<open>finally\<close> block, which detaches the queue.
\<close>

definition run_prompt ::
  "world \<Rightarrow> string option \<Rightarrow> string option \<Rightarrow> json list \<Rightarrow> manager
     \<Rightarrow> (exn + run_result) \<times> manager" where
  "run_prompt w token client_session_id messages m =
     (let client_session = (case client_session_id of None \<Rightarrow> [] | Some s \<Rightarrow> s)
      in case open_session w token client_session m of
           (Inl e, m3) \<Rightarrow> (Inl e, m3)
         | (Inr codex_session, m3) \<Rightarrow>
             (case attach_watcher codex_session m3 of
                (queue, m4) \<Rightarrow>
                  (case build_prompt_payload messages of
                     Inl e \<Rightarrow>
                       (case e of
                          ValueError msg \<Rightarrow> (Inl e, detach_watcher codex_session queue m4)
                        | _ \<Rightarrow> (Inl e, m4))
                   | Inr prompt_payload \<Rightarrow>
                       (let m5 = deliver (py_repr w) (notifications w) m4;
                            m6 = detach_watcher codex_session queue m5
                        in case agent_reply w ''session/prompt''
                                  (JObj [(''sessionId'', JStr codex_session),
                                         (''prompt'', JArr prompt_payload)]) of
                             Inl e \<Rightarrow> (Inl e, m6)
                           | Inr prompt_response \<Rightarrow>
                               (case py_or prompt_response (JObj []) of
                                  JObj r \<Rightarrow>
                                    (let reason = get_default r ''stopReason'' (JStr ''unknown'');
                                         acc = ingest_all (queues m6 queue) new_accumulator
                                     in (Inr \<lparr>session_id = (if client_session \<noteq> []
                                                             then client_session
                                                             else codex_session),
                                              codex_session_id = codex_session,
                                              stop_reason = reason,
                                              output_messages = build_output acc,
                                              run_result.events = accumulator.events acc\<rparr>,
                                         m6\<lparr>queues := (queues m6)(queue := [])\<rparr>))
                                | _ \<Rightarrow> (Inl AttributeError, m6))))))"

text \<open>
  \<^verbatim>\<open>stream_session\<close>, in three parts: the statements before the loop, which give the agent
  session and the address of the new queue; one turn of the loop, which yields the next
  queued notification; and the \<^verbatim>\<open>finally\<close> block run when the consumer stops.
\<close>

definition stream_session_open ::
  "world \<Rightarrow> string option \<Rightarrow> string \<Rightarrow> manager \<Rightarrow> (exn + string \<times> nat) \<times> manager" where
  "stream_session_open w token client_session_id m =
     (let effective_token = (case token of
                               Some t \<Rightarrow> Some t
                             | None \<Rightarrow> current_token (process m))
      in case ensure_started (os_environ w) (exit_status w) (spawn_error w) effective_token
                (process m) of
           (Inl e, p) \<Rightarrow> (Inl e, m\<lparr>process := p\<rparr>)
         | (Inr restarted, p) \<Rightarrow>
             (case ensure_initialized w effective_token (m\<lparr>process := p\<rparr>) of
                (Some e, m2) \<Rightarrow> (Inl e, m2)
              | (None, m2) \<Rightarrow>
                  (case ensure_session w client_session_id m2 of
                     (Inl e, m3) \<Rightarrow> (Inl e, m3)
                   | (Inr codex_session, m3) \<Rightarrow>
                       (case attach_watcher codex_session m3 of
                          (queue, m4) \<Rightarrow> (Inr (codex_session, queue), m4)))))"

definition stream_session_next :: "nat \<Rightarrow> manager \<Rightarrow> (json \<times> manager) option" where
  "stream_session_next queue m =
     (case queues m queue of
        [] \<Rightarrow> None
      | update # rest \<Rightarrow> Some (update, m\<lparr>queues := (queues m)(queue := rest)\<rparr>))"

definition stream_session_close :: "string \<Rightarrow> nat \<Rightarrow> manager \<Rightarrow> manager" where
  "stream_session_close codex_session queue m = detach_watcher codex_session queue m"

text \<open>
  Every queue address in the registry has been allocated: a queue created next is not yet
  registered anywhere.
\<close>

definition registry_allocated :: "manager \<Rightarrow> bool" where
  "registry_allocated m =
     (\<forall>(s, ws) \<in> set (session_watchers m). \<forall>q \<in> set ws. q < next_queue m)"

section \<open>Example states\<close>

text \<open>
  A transport with a running child, both readers running, and one request outstanding:
  identifier \<^verbatim>\<open>"1"\<close>, awaited through the future at address 0.
\<close>

definition one_pending :: transport where
  "one_pending =
     new_transport\<lparr>proc := Some \<lparr>returncode = None, environment = [], stdin = []\<rparr>,
                   stdout_task := Some Running, stderr_task := Some Running,
                   pending := [(''1'', 0)], id_counter := 1, next_future := 1\<rparr>"

text \<open>The same with a second request outstanding: identifier \<^verbatim>\<open>"2"\<close>, future 1.\<close>

definition two_pending :: transport where
  "two_pending = one_pending\<lparr>pending := [(''1'', 0), (''2'', 1)], id_counter := 2,
                             next_future := 2\<rparr>"

text \<open>
  The decoder and the parser on the lines of the examples. An ASCII line decodes to
  itself, and a line with the byte FF, which occurs in no UTF-8 sequence, does not
  decode. The two responses below parse to their objects; every other line of the
  examples is no JSON.
\<close>

definition decode_example :: "string \<Rightarrow> exn + string" where
  "decode_example bytes = (if CHR 0xFF \<in> set bytes then Inl UnicodeDecodeError else Inr bytes)"

definition error_line :: string where
  \<open>error_line = ''{"id": "1", "error": "boom"}'' @ [CHR 0x0A]\<close>

definition result_line :: string where
  \<open>result_line = ''{"id": "2", "result": "ok"}'' @ [CHR 0x0A]\<close>

definition loads_example :: "string \<Rightarrow> exn + json" where
  \<open>loads_example raw =
     (if raw = ''{"id": "1", "error": "boom"}''
      then Inr (JObj [(''id'', JStr ''1''), (''error'', JStr ''boom'')])
      else if raw = ''{"id": "2", "result": "ok"}''
      then Inr (JObj [(''id'', JStr ''2''), (''result'', JStr ''ok'')])
      else Inl JSONDecodeError)\<close>

text \<open>
  The transport of \<open>one_pending\<close> after the child wrote a line longer than 64 KiB:
  \<^verbatim>\<open>readline\<close> raised \<^verbatim>\<open>ValueError\<close> in the reader.
\<close>

definition reader_died :: transport where
  "reader_died =
     snd (read_stdout decode_example loads_example (\<lambda>_. [])
            [Inl (ValueError ''Separator is found, but chunk is longer than limit'')]
            one_pending)"

text \<open>
  A transport whose child has exited with status 1 while its handle is still held: the
  reader has seen the end of the stream, and nothing is pending.
\<close>

definition child_exited :: transport where
  "child_exited =
     new_transport\<lparr>proc := Some \<lparr>returncode = Some 1, environment = [], stdin = []\<rparr>,
                   stdout_task := Some Finished, stderr_task := Some Finished,
                   id_counter := 1, next_future := 1\<rparr>"

text \<open>A prompt whose \<^verbatim>\<open>parts\<close> member is the number 5.\<close>

definition parts_five :: "json list" where
  "parts_five = [JObj [(''parts'', JInt 5)]]"

text \<open>
  An agent that advertises key authentication, mints the session \<^verbatim>\<open>a1\<close> and ends every
  prompt with \<^verbatim>\<open>end_turn\<close>; and a world in which this agent emits one text chunk "hello"
  while the prompt is outstanding.
\<close>

definition agent_a1 :: "string \<Rightarrow> json \<Rightarrow> exn + json" where
  "agent_a1 method params =
     (if method = ''initialize''
      then Inr (JObj [(''authMethods'', JArr [JObj [(''id'', JStr ''openai-api-key'')]])])
      else if method = ''session/new'' then Inr (JObj [(''sessionId'', JStr ''a1'')])
      else if method = ''session/prompt'' then Inr (JObj [(''stopReason'', JStr ''end_turn'')])
      else Inr JNull)"

definition world_a1 :: world where
  "world_a1 = \<lparr>os_environ = [], exit_status = 0, spawn_error = None, agent_reply = agent_a1,
                notifications = [(JStr ''session/update'', chunk ''hello'')],
                py_repr = (\<lambda>_. [])\<rparr>"

text \<open>A prompt with the text "hi", and one whose only part is an image.\<close>

definition hi :: "json list" where
  "hi = [JObj [(''parts'', JArr [JObj [(''content_type'', JStr ''text/plain''),
                                       (''content'', JStr ''hi'')]])]]"

definition picture :: "json list" where
  "picture = [JObj [(''parts'', JArr [JObj [(''content_type'', JStr ''image/png''),
                                            (''content'', JStr ''iVBOR'')]])]]"

text \<open>
  A manager after a first run with the token \<^verbatim>\<open>sk-1\<close>: the child is running, the handshake
  is done, and the client session \<^verbatim>\<open>s1\<close> is mapped to the agent session \<^verbatim>\<open>a0\<close> of that child.
\<close>

definition stale_manager :: manager where
  "stale_manager =
     (new_manager ''/workspace'')
       \<lparr>process := one_pending\<lparr>pending := [], current_token := Some ''sk-1''\<rparr>,
        initialized := True,
        client_to_codex := [(''s1'', ''a0'')],
        auth_methods := {JStr ''openai-api-key''}\<rparr>"


section \<open>Properties of the accumulator\<close>

lemma ingest_parts:
  "assistant_text_parts (ingest n acc) =
     assistant_text_parts acc @ (case text_fragment n of None \<Rightarrow> [] | Some t \<Rightarrow> [t])"
  by (auto simp: ingest_def collect_chunk_def text_fragment_def py_or_def get_def
        get_default_def Let_def split: json.splits option.splits list.splits if_splits)

lemma ingest_all_parts:
  "assistant_text_parts (ingest_all ns acc) =
     assistant_text_parts acc @ List.map_filter text_fragment ns"
  by (induction ns arbitrary: acc)
     (auto simp: ingest_parts List.map_filter_simps split: option.splits)

text \<open>
  Claim C2. Whatever notifications one accumulator ingested, \<^verbatim>\<open>build_output\<close> is the empty
  list when no text fragment was collected, and otherwise exactly one message with role
  \<^verbatim>\<open>assistant\<close> whose single part is tagged \<^verbatim>\<open>text/plain\<close> and holds the concatenation of
  the fragments in arrival order. Ingesting the chunks "Hel" and "lo", a notification that
  is not a text chunk, and the chunk "!" gives one assistant message with content "Hello!".
\<close>

theorem build_output_concatenates_fragments:
  "build_output (ingest_all ns new_accumulator) =
     (if List.map_filter text_fragment ns = [] then []
      else [JObj [(''role'', JStr ''assistant''),
                  (''parts'', JArr [JObj [(''content_type'', JStr ''text/plain''),
                                          (''content_encoding'', JStr ''plain''),
                                          (''content'',
                                             JStr (concat (List.map_filter text_fragment ns)))]])]])
   \<and> build_output (ingest_all [chunk ''Hel'', chunk ''lo'', tool_call, chunk ''!'']
                     new_accumulator) =
       [JObj [(''role'', JStr ''assistant''),
              (''parts'', JArr [JObj [(''content_type'', JStr ''text/plain''),
                                      (''content_encoding'', JStr ''plain''),
                                      (''content'', JStr ''Hello!'')]])]]"
proof
  show "build_output (ingest_all ns new_accumulator) =
     (if List.map_filter text_fragment ns = [] then []
      else [JObj [(''role'', JStr ''assistant''),
                  (''parts'', JArr [JObj [(''content_type'', JStr ''text/plain''),
                                          (''content_encoding'', JStr ''plain''),
                                          (''content'',
                                             JStr (concat (List.map_filter text_fragment ns)))]])]])"
    by (simp add: build_output_def ingest_all_parts new_accumulator_def)
next
  have frs: "List.map_filter text_fragment [chunk ''Hel'', chunk ''lo'', tool_call, chunk ''!'']
               = [''Hel'', ''lo'', ''!'']"
    by (simp add: List.map_filter_simps text_fragment_def chunk_def tool_call_def)
  show "build_output (ingest_all [chunk ''Hel'', chunk ''lo'', tool_call, chunk ''!'']
                     new_accumulator) =
       [JObj [(''role'', JStr ''assistant''),
              (''parts'', JArr [JObj [(''content_type'', JStr ''text/plain''),
                                      (''content_encoding'', JStr ''plain''),
                                      (''content'', JStr ''Hello!'')]])]]"
    unfolding build_output_def ingest_all_parts frs by (simp add: new_accumulator_def)
qed

lemma ingest_events:
  "events (ingest n acc) = events acc @ (if recorded n then [n] else [])"
  by (auto simp: ingest_def collect_chunk_def recorded_def Let_def
        split: json.splits if_splits)

text \<open>
  Claim C3, as stated, fails: a notification whose \<^verbatim>\<open>update\<close> member is a non-empty
  string passes through \<^verbatim>\<open>ingest\<close> without being appended to the event log.
\<close>

theorem ingest_drops_non_object_update:
  "events (ingest (JObj [(''sessionId'', JStr ''a1''), (''update'', JStr ''x'')])
             new_accumulator)
     \<noteq> events new_accumulator @ [JObj [(''sessionId'', JStr ''a1''), (''update'', JStr ''x'')]]"
  by (simp add: ingest_def py_or_def get_def get_default_def new_accumulator_def)

text \<open>
  Claim C3, amended. After ingesting any sequence of notifications, the event log is the
  previous log followed by exactly those notifications that are objects whose \<^verbatim>\<open>update\<close>
  member is absent, falsy or itself an object, in ingestion order and whatever their
  kind; in particular N such notifications are all logged, in order.
\<close>

theorem ingest_all_events:
  "events (ingest_all ns acc) = events acc @ filter recorded ns"
  by (induction ns arbitrary: acc) (simp_all add: ingest_events)

section \<open>Properties of the transport\<close>

lemma fail_all_eq:
  "fail_all e as fs a = (if a \<in> set as \<and> fs a = Pending then Exception e else fs a)"
  by (induction as arbitrary: fs) (auto simp: set_exception_def is_done_def)

lemma intact_cancel:
  "await_suppressed t = None \<Longrightarrow> await_suppressed (map_option cancel t) = None"
  by (cases t rule: await_suppressed.cases) (simp_all split: task.splits)

lemma shutdown_intact:
  "readers_intact st \<Longrightarrow> fst (shutdown_locked status st) = None"
  by (simp add: shutdown_locked_def readers_intact_def intact_cancel Let_def
        split: option.splits)

lemma shutdown_clears_pending:
  "readers_intact st \<Longrightarrow> pending (snd (shutdown_locked status st)) = []"
  by (simp add: shutdown_locked_def readers_intact_def intact_cancel Let_def
        split: option.splits)

lemma conformant_error:
  "conformant (JObj m) \<Longrightarrow> get m ''error'' = JNull \<or> (\<exists>e. get m ''error'' = JObj e)"
  by (auto simp: conformant_def split: json.splits)

lemma handle_response_never_raises:
  assumes "get m ''error'' = JNull \<or> (\<exists>e. get m ''error'' = JObj e)"
  shows "fst (handle_response repr m st) \<noteq> Raised x"
  using assms by (auto simp: handle_response_def Let_def split: option.splits)

lemma conformant_never_raises:
  assumes "conformant message"
  shows "fst (handle_message repr message st) \<noteq> Raised x"
proof -
  from assms obtain m where m: "message = JObj m"
    by (cases message) (simp_all add: conformant_def)
  from conformant_error assms m
  have e: "get m ''error'' = JNull \<or> (\<exists>e. get m ''error'' = JObj e)" by blast
  show ?thesis
  proof (cases "has_key m ''id''")
    case True
    with handle_response_never_raises [OF e] show ?thesis
      by (simp add: handle_message_def m)
  next
    case False
    then show ?thesis
      by (simp add: handle_message_def m split: bool.splits)
  qed
qed

lemma response_state:
  assumes "conformant (JObj m)" and "has_key m ''id''"
    and "map_of (pending st) (py_str repr (get m ''id'')) = Some f"
  shows "snd (handle_message repr (JObj m) st) =
           st\<lparr>pending := AList.delete (py_str repr (get m ''id'')) (pending st),
              futures := (if futures st f = Pending then (futures st)(f := resolution m)
                          else futures st)\<rparr>"
proof -
  have nokey: "get m ''error'' = JNull" if "\<not> has_key m ''error''"
    using that by (simp add: has_key_def get_def get_default_def)
  from conformant_error [OF assms(1)] show ?thesis
  proof
    assume "get m ''error'' = JNull"
    with assms(2,3) show ?thesis
      by (simp add: handle_message_def handle_response_def Let_def set_result_def
            is_done_def resolution_def)
  next
    assume "\<exists>e. get m ''error'' = JObj e"
    then obtain e where e: "get m ''error'' = JObj e" ..
    then have "has_key m ''error''" using nokey by force
    with assms(2,3) e show ?thesis
      by (simp add: handle_message_def handle_response_def Let_def is_done_def resolution_def)
  qed
qed

text \<open>
  Two responses to two outstanding requests leave the same state in either order of
  arrival.
\<close>

lemma responses_commute:
  assumes c1: "conformant (JObj m1)" and c2: "conformant (JObj m2)"
    and k1: "has_key m1 ''id''" and k2: "has_key m2 ''id''"
    and ne: "py_str repr (get m1 ''id'') \<noteq> py_str repr (get m2 ''id'')"
    and p1: "map_of (pending st) (py_str repr (get m1 ''id'')) = Some f1"
    and p2: "map_of (pending st) (py_str repr (get m2 ''id'')) = Some f2"
    and nf: "f1 \<noteq> f2"
  shows "snd (handle_message repr (JObj m2) (snd (handle_message repr (JObj m1) st))) =
         snd (handle_message repr (JObj m1) (snd (handle_message repr (JObj m2) st)))"
proof -
  let ?r1 = "py_str repr (get m1 ''id'')" and ?r2 = "py_str repr (get m2 ''id'')"
  let ?s1 = "snd (handle_message repr (JObj m1) st)"
  let ?s2 = "snd (handle_message repr (JObj m2) st)"
  note s1 = response_state [OF c1 k1 p1] and s2 = response_state [OF c2 k2 p2]
  have p21: "map_of (pending ?s1) ?r2 = Some f2"
    using ne p2 by (simp add: s1 delete_conv')
  have p12: "map_of (pending ?s2) ?r1 = Some f1"
    using ne p1 by (simp add: s2 delete_conv')
  have del: "AList.delete ?r2 (AList.delete ?r1 (pending st)) =
             AList.delete ?r1 (AList.delete ?r2 (pending st))"
    by (simp add: delete_twist)
  show ?thesis
    unfolding response_state [OF c2 k2 p21] response_state [OF c1 k1 p12]
    using nf by (simp add: s1 s2 del fun_upd_twist)
qed

text \<open>
  A JSON-RPC response (an object with an \<^verbatim>\<open>id\<close> whose \<^verbatim>\<open>error\<close> member is absent, null or an
  object) resolves the request registered under \<^verbatim>\<open>str(id)\<close> and touches no other entry and
  no other future; without an entry the state is unchanged.
\<close>

lemma conformant_response_resolves_request:
  assumes "has_key m ''id''" and "conformant (JObj m)"
  shows "case map_of (pending st) (py_str repr (get m ''id'')) of
           None \<Rightarrow>
             handle_message repr (JObj m) st = (NoPending (py_str repr (get m ''id'')), st)
         | Some fut \<Rightarrow>
             fst (handle_message repr (JObj m) st) = Resolved fut
             \<and> (let st' = snd (handle_message repr (JObj m) st)
                in pending st' = AList.delete (py_str repr (get m ''id'')) (pending st)
                   \<and> map_of (pending st') (py_str repr (get m ''id'')) = None
                   \<and> (\<forall>k. k \<noteq> py_str repr (get m ''id'') \<longrightarrow>
                          map_of (pending st') k = map_of (pending st) k)
                   \<and> (\<forall>a. a \<noteq> fut \<longrightarrow> futures st' a = futures st a)
                   \<and> futures st' fut =
                       (if futures st fut \<noteq> Pending then futures st fut
                        else (case get m ''error'' of
                                JObj e \<Rightarrow>
                                  Exception
                                    (CodexError (get_default e ''code'' (JInt (- 32001)))
                                       (get_default e ''message'' (JStr ''Unknown error''))
                                       (get e ''data''))
                              | _ \<Rightarrow> Result (get m ''result''))))"
proof (cases "map_of (pending st) (py_str repr (get m ''id''))")
  case None
  with assms(1) show ?thesis
    by (simp add: handle_message_def handle_response_def)
next
  case (Some fut)
  have nokey: "get m ''error'' = JNull" if "\<not> has_key m ''error''"
    using that by (simp add: has_key_def get_def get_default_def)
  from conformant_error [OF assms(2)] show ?thesis
  proof
    assume "get m ''error'' = JNull"
    with Some assms(1) show ?thesis
      by (simp add: handle_message_def handle_response_def Let_def set_result_def
            is_done_def delete_conv')
  next
    assume "\<exists>e. get m ''error'' = JObj e"
    then obtain e where e: "get m ''error'' = JObj e" ..
    then have "has_key m ''error''" using nokey by force
    with Some assms(1) e show ?thesis
      by (simp add: handle_message_def handle_response_def Let_def is_done_def delete_conv')
  qed
qed

text \<open>The same through the reader: the two outstanding requests get their own responses.\<close>

lemma reader_resolves_result:
  "read_stdout decode_example loads_example (\<lambda>_. []) [Inr result_line] two_pending =
     ([Resolved 1],
      two_pending\<lparr>pending := [], stdout_task := Some Finished,
                  futures := (\<lambda>a. if a = 1 then Result (JStr ''ok'')
                                  else if a = 0
                                  then Exception (CodexProcessClosed ''codex-acp stdout closed'')
                                  else Pending)\<rparr>)"
  by (simp add: read_line_def decode_example_def loads_example_def result_line_def strip_def
        is_space_def handle_message_def handle_response_def has_key_def get_def get_default_def
        two_pending_def one_pending_def new_transport_def stdout_closed_def set_result_def
        set_exception_def is_done_def fun_eq_iff)

text \<open>
  Claim C1. The claim holds for every response whose \<^verbatim>\<open>error\<close> member is absent, null or an
  object, and the code misses the other case. With the requests \<^verbatim>\<open>"1"\<close> and \<^verbatim>\<open>"2"\<close>
  outstanding, the child writes a response to \<^verbatim>\<open>"1"\<close> whose \<^verbatim>\<open>error\<close> member is the string
  "boom" and then the result of \<^verbatim>\<open>"2"\<close>. The entry of \<^verbatim>\<open>"1"\<close> is popped, \<^verbatim>\<open>error_obj.get\<close> raises
  \<^verbatim>\<open>AttributeError\<close> and the reader task ends: request \<^verbatim>\<open>"1"\<close> is never resolved, neither with
  a \<^verbatim>\<open>CodexError\<close> nor otherwise, the response to \<^verbatim>\<open>"2"\<close> is never read, and the statements
  after the loop do not run.
\<close>

theorem reader_dies_on_non_object_error:
  "read_stdout decode_example loads_example (\<lambda>_. []) [Inr error_line, Inr result_line]
       two_pending =
     ([Raised AttributeError],
      two_pending\<lparr>pending := [(''2'', 1)], stdout_task := Some (Failed AttributeError)\<rparr>)
   \<and> await (futures (snd (read_stdout decode_example loads_example (\<lambda>_. [])
                             [Inr error_line, Inr result_line] two_pending)) 0) = None
   \<and> await (futures (snd (read_stdout decode_example loads_example (\<lambda>_. [])
                             [Inr error_line, Inr result_line] two_pending)) 1) = None"
  by (simp add: read_line_def decode_example_def loads_example_def error_line_def strip_def
        is_space_def handle_message_def handle_response_def has_key_def get_def get_default_def
        two_pending_def one_pending_def new_transport_def is_done_def)

text \<open>
  When neither reader task has ended by an exception and the spawn succeeds,
  \<^verbatim>\<open>ensure_started\<close> returns \<^verbatim>\<open>False\<close> exactly for a running child with the same token, and
  otherwise stops, starts a child and returns \<^verbatim>\<open>True\<close>.
\<close>

lemma ensure_started_with_intact_readers:
  "(fst (ensure_started environ status spawn token st) = Inr False
      \<longleftrightarrow> is_running st \<and> token = current_token st)
   \<and> (is_running st \<and> token = current_token st \<longrightarrow>
        ensure_started environ status spawn token st = (Inr False, st))
   \<and> (\<not> (is_running st \<and> token = current_token st) \<and> readers_intact st \<longrightarrow>
        fst (stop status st) = None
        \<and> ensure_started environ status None token st =
            (Inr True,
             (snd (stop status st))
               \<lparr>proc := Some \<lparr>returncode = None, environment = child_env environ token,
                               stdin = []\<rparr>,
                current_token := token,
                stdout_task := Some Running,
                stderr_task := Some Running\<rparr>)
        \<and> is_running (snd (ensure_started environ status None token st))
        \<and> current_token (snd (ensure_started environ status None token st)) = token
        \<and> pending (snd (ensure_started environ status None token st)) = [])"
proof -
  have a: "fst (ensure_started environ status spawn token st) = Inr False
             \<longleftrightarrow> is_running st \<and> token = current_token st"
    by (simp add: ensure_started_def split: prod.splits option.splits)
  have b: "ensure_started environ status spawn token st = (Inr False, st)"
    if "is_running st \<and> token = current_token st"
    using that by (simp add: ensure_started_def)
  have c: "fst (stop status st) = None
        \<and> ensure_started environ status None token st =
            (Inr True,
             (snd (stop status st))
               \<lparr>proc := Some \<lparr>returncode = None, environment = child_env environ token,
                               stdin = []\<rparr>,
                current_token := token,
                stdout_task := Some Running,
                stderr_task := Some Running\<rparr>)"
    if n: "\<not> (is_running st \<and> token = current_token st)" and r: "readers_intact st"
  proof -
    obtain st1 where s: "shutdown_locked status st = (None, st1)"
      using shutdown_intact [OF r, of status] by (cases "shutdown_locked status st") simp
    with n show ?thesis by (simp add: ensure_started_def stop_def)
  qed
  have d: "pending (snd (stop status st)) = []" if "readers_intact st"
    using that by (simp add: stop_def shutdown_clears_pending)
  show ?thesis using a b c d by (simp add: is_running_def)
qed

lemma reader_died_state:
  "reader_died =
     one_pending\<lparr>stdout_task :=
                   Some (Failed (ValueError
                                   ''Separator is found, but chunk is longer than limit''))\<rparr>"
  by (simp add: reader_died_def)

text \<open>
  Claim C5. The claim holds while awaiting the reader tasks raises nothing, and the code
  misses the case of a reader task that ended by an exception. After the child wrote a
  line longer than 64 KiB the reader has ended by \<^verbatim>\<open>ValueError\<close>. A call of
  \<^verbatim>\<open>ensure_started\<close> with another token then terminates the child, but the \<^verbatim>\<open>await\<close> of the
  reader task in \<^verbatim>\<open>_shutdown_locked\<close> raises the \<^verbatim>\<open>ValueError\<close> again: nothing is started and
  nothing is returned. The handle of the terminated child stays, the task stays, and
  every later call raises the same exception.
\<close>

theorem ensure_started_raises_after_reader_died:
  "is_running reader_died
   \<and> Some ''sk-2'' \<noteq> current_token reader_died
   \<and> fst (ensure_started [] 0 None (Some ''sk-2'') reader_died) =
       Inl (ValueError ''Separator is found, but chunk is longer than limit'')
   \<and> \<not> is_running (snd (ensure_started [] 0 None (Some ''sk-2'') reader_died))
   \<and> fst (ensure_started [] 0 None (Some ''sk-2'')
            (snd (ensure_started [] 0 None (Some ''sk-2'') reader_died))) =
       Inl (ValueError ''Separator is found, but chunk is longer than limit'')"
  by (simp add: reader_died_state ensure_started_def shutdown_locked_def is_running_def
        one_pending_def new_transport_def)

text \<open>
  At end-of-stream, and in \<^verbatim>\<open>stop\<close> when neither reader task has ended by an exception,
  the pending table is left empty and every future in it that was not yet done is failed
  with \<^verbatim>\<open>CodexProcessClosed\<close>.
\<close>

lemma pending_requests_fail_on_close:
  "(pending (snd (read_stdout decode loads repr [] st)) = []
      \<and> (\<forall>(k, a) \<in> set (pending st). futures st a = Pending \<longrightarrow>
            futures (snd (read_stdout decode loads repr [] st)) a =
              Exception (CodexProcessClosed ''codex-acp stdout closed'')))
   \<and> (readers_intact st \<longrightarrow>
        fst (stop status st) = None
        \<and> pending (snd (stop status st)) = []
        \<and> (\<forall>(k, a) \<in> set (pending st). futures st a = Pending \<longrightarrow>
              futures (snd (stop status st)) a =
                Exception (CodexProcessClosed ''codex-acp process stopped'')))"
proof -
  have eof: "futures (stdout_closed st) a =
               Exception (CodexProcessClosed ''codex-acp stdout closed'')"
    if "(k, a) \<in> set (pending st)" "futures st a = Pending" for k a
    using that by (force simp: stdout_closed_def fail_all_eq)
  have stopped: "futures (snd (stop status st)) a =
               Exception (CodexProcessClosed ''codex-acp process stopped'')"
    if "readers_intact st" "(k, a) \<in> set (pending st)" "futures st a = Pending" for k a
    using that
    by (force simp: stop_def shutdown_locked_def readers_intact_def intact_cancel fail_all_eq
          Let_def split: option.splits)
  have none: "fst (stop status st) = None \<and> pending (snd (stop status st)) = []"
    if "readers_intact st"
    using that by (simp add: stop_def shutdown_intact shutdown_clears_pending)
  show ?thesis
    using eof stopped none by (auto simp: stdout_closed_def)
qed

text \<open>
  Whatever the child wrote before, a reader that no exception ended has run the
  statements after the loop: the task is finished and the pending table is empty.
\<close>

lemma reader_without_exception_clears_pending:
  assumes "\<forall>e. Raised e \<notin> set (fst (read_stdout decode loads repr reads st))"
  shows "stdout_task (snd (read_stdout decode loads repr reads st)) = Some Finished
         \<and> pending (snd (read_stdout decode loads repr reads st)) = []"
  using assms
proof (induction reads arbitrary: st)
  case Nil
  show ?case by (simp add: stdout_closed_def)
next
  case (Cons r rest)
  show ?case
  proof (cases r)
    case (Inl e)
    with Cons.prems show ?thesis by simp
  next
    case (Inr line)
    show ?thesis
    proof (cases "line = []")
      case True
      with Inr show ?thesis by (simp add: stdout_closed_def)
    next
      case False
      obtain out st1 where rl: "read_line decode loads repr line st = (out, st1)"
        by (cases "read_line decode loads repr line st")
      show ?thesis
      proof (cases "\<exists>e. out = Raised e")
        case True
        then obtain e where "out = Raised e" ..
        with Inr False rl
        have "fst (read_stdout decode loads repr (r # rest) st) = [Raised e]"
          by simp
        with Cons.prems show ?thesis by simp
      next
        case nr: False
        then have step: "read_stdout decode loads repr (r # rest) st =
                           (out # fst (read_stdout decode loads repr rest st1),
                            snd (read_stdout decode loads repr rest st1))"
          using Inr False rl by (cases out) (simp_all add: case_prod_beta)
        with Cons.prems
        have "\<forall>e. Raised e \<notin> set (fst (read_stdout decode loads repr rest st1))"
          by simp
        from Cons.IH [OF this] step show ?thesis by simp
      qed
    qed
  qed
qed

text \<open>
  Claim C6. The end-of-stream half of the claim holds; the stop half misses the case of a
  reader task that ended by an exception, by the same \<^verbatim>\<open>await\<close> as in claim C5. After the
  child wrote a line longer than 64 KiB, with request \<^verbatim>\<open>"1"\<close> outstanding, \<^verbatim>\<open>stop\<close> raises the
  reader's \<^verbatim>\<open>ValueError\<close> before the loop that fails the pending requests: the table still
  holds the request and its future is still pending.
\<close>

theorem stop_leaves_request_pending_after_reader_died:
  "map_of (pending reader_died) ''1'' = Some 0
   \<and> await (futures reader_died 0) = None
   \<and> fst (stop 0 reader_died) =
       Some (ValueError ''Separator is found, but chunk is longer than limit'')
   \<and> pending (snd (stop 0 reader_died)) = [(''1'', 0)]
   \<and> await (futures (snd (stop 0 reader_died)) 0) = None"
  by (simp add: reader_died_state stop_def shutdown_locked_def one_pending_def
        new_transport_def)

text \<open>
  Without a process handle \<^verbatim>\<open>request\<close> raises \<^verbatim>\<open>CodexProcessClosed\<close> at once and changes
  nothing; with a handle, when the write raises \<^verbatim>\<open>BrokenPipeError\<close>, the future just
  registered is failed with \<^verbatim>\<open>CodexProcessClosed\<close> and the same error is raised.
\<close>

lemma request_without_handle_or_with_broken_pipe:
  "(proc st = None \<longrightarrow>
      request write method params st =
        (Inl (CodexProcessClosed ''codex-acp process is not running''), st))
   \<and> (proc st \<noteq> None \<longrightarrow>
        fst (request (BrokenPipeError msg) method params st) = Inl (CodexProcessClosed msg)
        \<and> map_of (pending (snd (request (BrokenPipeError msg) method params st)))
             (str_nat (id_counter st + 1)) = Some (next_future st)
        \<and> futures (snd (request (BrokenPipeError msg) method params st)) (next_future st) =
             Exception (CodexProcessClosed msg))"
  by (auto simp: request_def Let_def set_exception_def is_done_def update_conv')

text \<open>
  Claim C8. The guard of \<^verbatim>\<open>request\<close> tests the handle, not whether the child runs. With a
  child that has exited while its handle is held, \<^verbatim>\<open>request\<close> does not raise
  \<^verbatim>\<open>CodexProcessClosed\<close>: it registers a pending request and writes. The
  \<^verbatim>\<open>ConnectionResetError\<close> that the write to the closed pipe raises is not the
  \<^verbatim>\<open>BrokenPipeError\<close> that is caught, so it reaches the caller as it is and the future stays
  pending in the table; were the write to succeed, the caller would wait on that future.
\<close>

theorem request_on_exited_child_registers:
  "\<not> is_running child_exited
   \<and> fst (request (WriteFailed (ConnectionResetError ''Connection lost'')) ''session/new''
            JNull child_exited) = Inl (ConnectionResetError ''Connection lost'')
   \<and> pending (snd (request (WriteFailed (ConnectionResetError ''Connection lost''))
                     ''session/new'' JNull child_exited)) = [(''2'', 1)]
   \<and> await (futures (snd (request (WriteFailed (ConnectionResetError ''Connection lost''))
                             ''session/new'' JNull child_exited)) 1) = None
   \<and> fst (request Written ''session/new'' JNull child_exited) = Inr 1
   \<and> pending (snd (request Written ''session/new'' JNull child_exited)) = [(''2'', 1)]"
  by (simp add: request_def child_exited_def new_transport_def is_running_def str_nat.simps
        Let_def)

text \<open>
  A line that decodes and on which \<^verbatim>\<open>json.loads\<close> raises \<^verbatim>\<open>JSONDecodeError\<close> takes the branch
  that logs the error (or the blank-line branch when nothing is left after stripping);
  the transport is unchanged and the loop goes on with the next line. A line whose
  decoding raises, or on which \<^verbatim>\<open>json.loads\<close> raises another exception, ends the reader.
\<close>

lemma json_decode_error_is_skipped:
  assumes "decode line = Inr text" and "loads (strip text) = Inl JSONDecodeError"
  shows "read_line decode loads repr line st =
           (if strip text = [] then Blank else DecodeFailed (strip text), st)"
    and "line \<noteq> [] \<Longrightarrow>
           read_stdout decode loads repr (Inr line # rest) st =
             ((if strip text = [] then Blank else DecodeFailed (strip text))
                # fst (read_stdout decode loads repr rest st),
              snd (read_stdout decode loads repr rest st))"
  using assms by (auto simp: read_line_def Let_def split: prod.splits outcome.splits)

lemma other_parse_failure_ends_reader:
  assumes "line \<noteq> []"
    and "decode line = Inl e
         \<or> (\<exists>text. decode line = Inr text \<and> strip text \<noteq> [] \<and> loads (strip text) = Inl e
                    \<and> e \<noteq> JSONDecodeError)"
  shows "read_stdout decode loads repr (Inr line # rest) st =
           ([Raised e], st\<lparr>stdout_task := Some (Failed e)\<rparr>)"
  using assms by (auto simp: read_line_def Let_def)

lemma reader_skips_json_decode_error:
  "read_stdout decode_example loads_example (\<lambda>_. [])
       [Inr (''{not json'' @ [CHR 0x0A]), Inr result_line] two_pending =
     ([DecodeFailed ''{not json'', Resolved 1],
      snd (read_stdout decode_example loads_example (\<lambda>_. []) [Inr result_line] two_pending))"
  by (simp add: read_line_def decode_example_def loads_example_def result_line_def strip_def
        is_space_def handle_message_def handle_response_def has_key_def get_def get_default_def
        two_pending_def one_pending_def new_transport_def)

text \<open>
  Claim C9. The claim holds for the lines on which \<^verbatim>\<open>json.loads\<close> raises \<^verbatim>\<open>JSONDecodeError\<close>,
  and the code misses the other lines that do not parse: \<^verbatim>\<open>line.decode("utf-8")\<close> stands
  outside the \<^verbatim>\<open>try\<close>, and the \<^verbatim>\<open>except\<close> clause names \<^verbatim>\<open>JSONDecodeError\<close> only. With the
  requests \<^verbatim>\<open>"1"\<close> and \<^verbatim>\<open>"2"\<close> outstanding, the child writes a line that is not UTF-8 and
  then the result of \<^verbatim>\<open>"2"\<close>. The line is not logged and skipped: \<^verbatim>\<open>UnicodeDecodeError\<close> ends
  the reader task, and the response to \<^verbatim>\<open>"2"\<close> is never read.
\<close>

theorem reader_dies_on_line_that_is_not_utf8:
  "read_stdout decode_example loads_example (\<lambda>_. []) [Inr [CHR 0xFF, CHR 0x0A], Inr result_line]
       two_pending =
     ([Raised UnicodeDecodeError], two_pending\<lparr>stdout_task := Some (Failed UnicodeDecodeError)\<rparr>)
   \<and> await (futures (snd (read_stdout decode_example loads_example (\<lambda>_. [])
                             [Inr [CHR 0xFF, CHR 0x0A], Inr result_line] two_pending)) 1) = None"
  by (simp add: read_line_def decode_example_def two_pending_def one_pending_def
        new_transport_def)

section \<open>Properties of the orchestrator\<close>

lemma ensure_initialized_frame:
  "ensure_initialized w token m = (r, m') \<Longrightarrow>
     session_watchers m' = session_watchers m \<and> next_queue m' = next_queue m"
  by (auto simp: ensure_initialized_def Let_def split: sum.splits if_splits)

lemma ensure_session_frame:
  "ensure_session w cs m = (r, m') \<Longrightarrow>
     session_watchers m' = session_watchers m \<and> next_queue m' = next_queue m"
  by (auto simp: ensure_session_def Let_def
        split: option.splits sum.splits json.splits if_splits)

lemma open_session_frame:
  assumes "open_session w token cs m = (r, m')"
  shows "(session_watchers m' = session_watchers m \<or> session_watchers m' = [])
         \<and> next_queue m' = next_queue m"
proof (cases "ensure_started (os_environ w) (exit_status w) (spawn_error w) token (process m)")
  case (Pair started p)
  show ?thesis
  proof (cases started)
    case (Inl e)
    with Pair assms show ?thesis by (auto simp: open_session_def)
  next
    case (Inr restarted)
    define m1 where "m1 = (if restarted
                     then m\<lparr>process := p, initialized := False, client_to_codex := [],
                            session_watchers := []\<rparr>
                     else m\<lparr>process := p\<rparr>)"
    have m1: "(session_watchers m1 = session_watchers m \<or> session_watchers m1 = [])
              \<and> next_queue m1 = next_queue m"
      by (simp add: m1_def)
    obtain i m2 where init: "ensure_initialized w token m1 = (i, m2)"
      by (cases "ensure_initialized w token m1")
    note f2 = ensure_initialized_frame [OF init]
    show ?thesis
    proof (cases i)
      case (Some e)
      with Pair Inr init assms have "m' = m2"
        by (simp add: open_session_def m1_def [symmetric])
      with f2 m1 show ?thesis by auto
    next
      case None
      with Pair Inr init assms have "ensure_session w cs m2 = (r, m')"
        by (simp add: open_session_def m1_def [symmetric])
      from ensure_session_frame [OF this] f2 m1 show ?thesis by auto
    qed
  qed
qed

lemma open_session_allocated:
  assumes "registry_allocated m" and "open_session w token cs m = (r, m')"
  shows "registry_allocated m'"
  using open_session_frame [OF assms(2)] assms(1)
  by (fastforce simp: registry_allocated_def)

lemma attach_detach:
  assumes "registry_allocated m"
  shows "map_of (session_watchers
                   (detach_watcher cs (next_queue m) (snd (attach_watcher cs m)))) s =
           (if s = cs \<and> map_of (session_watchers m) s = Some [] then None
            else map_of (session_watchers m) s)"
proof (cases "map_of (session_watchers m) cs")
  case None
  then show ?thesis
    by (simp add: attach_watcher_def detach_watcher_def Let_def update_conv' delete_conv')
next
  case (Some ws)
  then have "(cs, ws) \<in> set (session_watchers m)" by (rule map_of_SomeD)
  with assms have "next_queue m \<notin> set ws"
    by (fastforce simp: registry_allocated_def)
  then have r: "remove1 (next_queue m) (ws @ [next_queue m]) = ws"
    by (simp add: remove1_append)
  with Some show ?thesis
    by (simp add: attach_watcher_def detach_watcher_def Let_def update_conv' delete_conv' r)
qed

lemma in_update:
  "(s, ws) \<in> set (AList.update k v al) \<Longrightarrow> (s, ws) \<in> set al \<or> (s, ws) = (k, v)"
  by (induction al) (auto split: if_splits)

lemma in_delete: "(s, ws) \<in> set (AList.delete k al) \<Longrightarrow> (s, ws) \<in> set al"
  by (induction al) (auto split: if_splits)

lemma attach_detach_no_queue:
  assumes "registry_allocated m"
    and "(s, ws) \<in> set (session_watchers
                          (detach_watcher cs (next_queue m) (snd (attach_watcher cs m))))"
  shows "next_queue m \<notin> set ws"
proof -
  have old: "next_queue m \<notin> set ws'" if "(s', ws') \<in> set (session_watchers m)" for s' ws'
    using that assms(1) by (fastforce simp: registry_allocated_def)
  define before where
    "before = (case map_of (session_watchers m) cs of None \<Rightarrow> [] | Some ws \<Rightarrow> ws)"
  have fresh: "next_queue m \<notin> set before"
  proof (cases "map_of (session_watchers m) cs")
    case None
    then show ?thesis by (simp add: before_def)
  next
    case (Some ws0)
    then have "(cs, ws0) \<in> set (session_watchers m)" by (rule map_of_SomeD)
    with old Some show ?thesis by (simp add: before_def)
  qed
  then have r: "remove1 (next_queue m) (before @ [next_queue m]) = before"
    by (simp add: remove1_append)
  let ?al = "AList.update cs (before @ [next_queue m]) (session_watchers m)"
  have att: "session_watchers (snd (attach_watcher cs m)) = ?al"
    by (simp add: attach_watcher_def Let_def before_def)
  have look: "map_of ?al cs = Some (before @ [next_queue m])"
    by (simp add: update_conv')
  have "session_watchers (detach_watcher cs (next_queue m) (snd (attach_watcher cs m))) =
          (if before = [] then AList.delete cs (session_watchers m)
           else AList.update cs before (session_watchers m))"
    by (simp add: detach_watcher_def att look r Let_def delete_update_same)
  with assms(2) have "(s, ws) \<in> set (session_watchers m) \<or> ws = before"
    by (auto split: if_splits dest!: in_update in_delete)
  with old fresh show ?thesis by auto
qed

lemmas eval_defs =
  open_session_def ensure_started_def shutdown_locked_def ensure_initialized_def
  ensure_session_def auth_method_ids_def token_given_def attach_watcher_def
  detach_watcher_def handle_notification_def build_prompt_payload_def
  new_manager_def new_transport_def world_a1_def agent_a1_def
  py_or_def get_def get_default_def has_key_def child_env_def Let_def

lemma open_a1:
  "fst (open_session world_a1 None ''s1'' (new_manager ''/workspace'')) = Inr ''a1''"
  "session_watchers (snd (open_session world_a1 None ''s1'' (new_manager ''/workspace''))) = []"
  by (simp_all add: eval_defs)

lemma open_a1_anonymous:
  "fst (open_session world_a1 None [] (new_manager ''/workspace'')) = Inr ''a1''"
  by (simp add: eval_defs)

text \<open>
  The end-to-end scenario: a run without token for the client session \<^verbatim>\<open>s1\<close> with the text
  "hi", against an agent that mints \<^verbatim>\<open>a1\<close>, emits one chunk "hello" and stops with
  \<^verbatim>\<open>end_turn\<close>.
\<close>

lemma end_to_end_scenario:
  "fst (run_prompt world_a1 None (Some ''s1'') hi (new_manager ''/workspace'')) =
     Inr \<lparr>session_id = ''s1'', codex_session_id = ''a1'', stop_reason = JStr ''end_turn'',
          output_messages =
            [JObj [(''role'', JStr ''assistant''),
                   (''parts'', JArr [JObj [(''content_type'', JStr ''text/plain''),
                                           (''content_encoding'', JStr ''plain''),
                                           (''content'', JStr ''hello'')]])]],
          run_result.events = [chunk ''hello'']\<rparr>"
  by (simp add: run_prompt_def eval_defs hi_def chunk_def ingest_def collect_chunk_def
        build_output_def new_accumulator_def)

text \<open>The same run without a client session identifier.\<close>

lemma anonymous_scenario:
  "fst (run_prompt world_a1 None None hi (new_manager ''/workspace'')) =
     Inr \<lparr>session_id = ''a1'', codex_session_id = ''a1'', stop_reason = JStr ''end_turn'',
          output_messages =
            [JObj [(''role'', JStr ''assistant''),
                   (''parts'', JArr [JObj [(''content_type'', JStr ''text/plain''),
                                           (''content_encoding'', JStr ''plain''),
                                           (''content'', JStr ''hello'')]])]],
          run_result.events = [chunk ''hello'']\<rparr>"
  by (simp add: run_prompt_def eval_defs hi_def chunk_def ingest_def collect_chunk_def
        build_output_def new_accumulator_def)

text \<open>
  When \<^verbatim>\<open>ensure_started\<close> reports a restart, \<^verbatim>\<open>run_prompt\<close> goes on from a manager whose
  handshake flag, session mapping and subscriber registry are cleared.
\<close>

lemma run_prompt_resets_on_restart:
  assumes "fst (ensure_started (os_environ w) (exit_status w) (spawn_error w) token (process m))
             = Inr True"
  shows "open_session w token cs m =
           (case ensure_initialized w token
                   (m\<lparr>process := snd (ensure_started (os_environ w) (exit_status w)
                                        (spawn_error w) token (process m)),
                      initialized := False, client_to_codex := [], session_watchers := []\<rparr>) of
              (Some e, m2) \<Rightarrow> (Inl e, m2)
            | (None, m2) \<Rightarrow> ensure_session w cs m2)"
proof -
  obtain p where
    "ensure_started (os_environ w) (exit_status w) (spawn_error w) token (process m)
       = (Inr True, p)"
    using assms
    by (cases "ensure_started (os_environ w) (exit_status w) (spawn_error w) token (process m)")
       simp
  then show ?thesis by (simp add: open_session_def)
qed

text \<open>
  Claim C4. \<^verbatim>\<open>run_prompt\<close> resets the manager when \<^verbatim>\<open>ensure_started\<close> reports a restart
  (lemma \<open>run_prompt_resets_on_restart\<close>), but \<^verbatim>\<open>stream_session\<close> discards what
  \<^verbatim>\<open>ensure_started\<close> returns. Opening a stream with the token \<^verbatim>\<open>sk-2\<close> on a manager whose
  child runs with \<^verbatim>\<open>sk-1\<close> restarts the child, yet the handshake flag stays set and the
  client session \<^verbatim>\<open>s1\<close> still resolves to \<^verbatim>\<open>a0\<close>, a session of the child that was stopped.
\<close>

theorem stream_session_keeps_stale_state:
  "fst (ensure_started (os_environ world_a1) (exit_status world_a1) (spawn_error world_a1)
          (Some ''sk-2'') (process stale_manager)) = Inr True
   \<and> fst (stream_session_open world_a1 (Some ''sk-2'') ''s1'' stale_manager) = Inr (''a0'', 0)
   \<and> initialized (snd (stream_session_open world_a1 (Some ''sk-2'') ''s1'' stale_manager))
   \<and> client_to_codex (snd (stream_session_open world_a1 (Some ''sk-2'') ''s1'' stale_manager))
       = [(''s1'', ''a0'')]"
  by (simp add: stream_session_open_def eval_defs stale_manager_def one_pending_def)

text \<open>
  When the first three steps of \<^verbatim>\<open>run_prompt\<close> succeed and the two loops of
  \<^verbatim>\<open>_build_prompt_payload\<close> end without a content block, \<^verbatim>\<open>run_prompt\<close> raises the
  \<^verbatim>\<open>ValueError\<close>, the queue it created is in no watcher list afterwards, and every session
  has the watchers it had before the queue was registered, an empty list being pruned.
\<close>

lemma run_prompt_value_error_detaches:
  assumes "registry_allocated m"
    and "open_session w token (case cs of None \<Rightarrow> [] | Some s \<Rightarrow> s) m = (Inr codex_session, m3)"
    and "collect_blocks messages = Inr []"
  shows "fst (run_prompt w token cs messages m) =
           Inl (ValueError ''Prompt payload did not contain any plain text content'')
         \<and> (\<forall>(s, ws) \<in> set (session_watchers (snd (run_prompt w token cs messages m))).
               next_queue m3 \<notin> set ws)
         \<and> (\<forall>s. map_of (session_watchers (snd (run_prompt w token cs messages m))) s =
                  (if s = codex_session \<and> map_of (session_watchers m3) s = Some [] then None
                   else map_of (session_watchers m3) s))
         \<and> (map_of (session_watchers m3) codex_session = None \<longrightarrow>
              map_of (session_watchers (snd (run_prompt w token cs messages m))) codex_session
                = None)"
proof -
  have a3: "registry_allocated m3"
    using open_session_allocated [OF assms(1,2)] .
  obtain m4 where att: "attach_watcher codex_session m3 = (next_queue m3, m4)"
    by (simp add: attach_watcher_def Let_def)
  then have m4: "m4 = snd (attach_watcher codex_session m3)" by simp
  have run: "run_prompt w token cs messages m =
               (Inl (ValueError ''Prompt payload did not contain any plain text content''),
                detach_watcher codex_session (next_queue m3)
                  (snd (attach_watcher codex_session m3)))"
    using assms(2,3) att
    by (simp add: run_prompt_def build_prompt_payload_def Let_def)
  show ?thesis
    unfolding run using attach_detach [OF a3] attach_detach_no_queue [OF a3]
    by auto
qed

text \<open>A prompt whose only part is an image takes this path: the registry is empty afterwards.\<close>

lemma run_prompt_detaches_for_picture:
  "fst (run_prompt world_a1 None (Some ''s1'') picture (new_manager ''/workspace'')) =
     Inl (ValueError ''Prompt payload did not contain any plain text content'')
   \<and> session_watchers
        (snd (run_prompt world_a1 None (Some ''s1'') picture (new_manager ''/workspace''))) = []"
  by (simp add: run_prompt_def eval_defs picture_def)

text \<open>
  Claim C7. The claim holds when \<^verbatim>\<open>_build_prompt_payload\<close> raises its \<^verbatim>\<open>ValueError\<close>, and the
  code misses the messages without text on which it raises something else: only
  \<^verbatim>\<open>except ValueError\<close> detaches the queue. For a message whose \<^verbatim>\<open>parts\<close> member is the number
  5, which the request model of the HTTP layer accepts, the \<^verbatim>\<open>for\<close> statement raises
  \<^verbatim>\<open>TypeError\<close>: \<^verbatim>\<open>run_prompt\<close> fails with \<^verbatim>\<open>TypeError\<close> and the queue it registered for the
  agent session \<^verbatim>\<open>a1\<close> stays in the registry.
\<close>

theorem run_prompt_leaks_queue_on_type_error:
  "fst (run_prompt world_a1 None (Some ''s1'') parts_five (new_manager ''/workspace'')) =
     Inl TypeError
   \<and> session_watchers
        (snd (run_prompt world_a1 None (Some ''s1'') parts_five (new_manager ''/workspace''))) =
       [(''a1'', [0])]"
  by (simp add: run_prompt_def eval_defs parts_five_def)

text \<open>
  Claim C10. In the result of a successful \<^verbatim>\<open>run_prompt\<close>, \<^verbatim>\<open>session_id\<close> is the client
  session identifier when that is a non-empty string, and otherwise (\<^verbatim>\<open>None\<close> or empty)
  \<^verbatim>\<open>codex_session_id\<close>, which is the agent session the call resolved.
\<close>

theorem run_prompt_session_id:
  assumes "run_prompt w token cs messages m = (Inr r, m')"
  shows "session_id r = (case cs of
                           None \<Rightarrow> codex_session_id r
                         | Some s \<Rightarrow> if s \<noteq> [] then s else codex_session_id r)
         \<and> fst (open_session w token (case cs of None \<Rightarrow> [] | Some s \<Rightarrow> s) m) =
             Inr (codex_session_id r)"
proof -
  let ?cs = "case cs of None \<Rightarrow> [] | Some s \<Rightarrow> s"
  obtain o3 m3 where op: "open_session w token ?cs m = (o3, m3)"
    by (cases "open_session w token ?cs m")
  from assms op obtain codex_session where o3: "o3 = Inr codex_session"
    by (cases o3) (auto simp: run_prompt_def Let_def)
  obtain q m4 where att: "attach_watcher codex_session m3 = (q, m4)"
    by (cases "attach_watcher codex_session m3")
  from assms op o3 att
  have "session_id r = (if ?cs \<noteq> [] then ?cs else codex_session)
        \<and> codex_session_id r = codex_session"
    by (auto simp: run_prompt_def Let_def
          split: sum.splits exn.splits json.splits)
  with op o3 show ?thesis by (auto split: option.splits)
qed

theorem run_prompt_session_id_witness:
  "(\<exists>r m'. run_prompt world_a1 None (Some ''s1'') hi (new_manager ''/workspace'') = (Inr r, m')
            \<and> session_id r = ''s1'' \<and> codex_session_id r = ''a1'')
   \<and> (\<exists>r m'. run_prompt world_a1 None None hi (new_manager ''/workspace'') = (Inr r, m')
              \<and> session_id r = ''a1'' \<and> codex_session_id r = ''a1'')"
proof -
  obtain r m' where
    run: "run_prompt world_a1 None (Some ''s1'') hi (new_manager ''/workspace'') = (Inr r, m')"
    using end_to_end_scenario
    by (cases "run_prompt world_a1 None (Some ''s1'') hi (new_manager ''/workspace'')") simp
  from run_prompt_session_id [OF run] open_a1(1)
  have named: "session_id r = ''s1'' \<and> codex_session_id r = ''a1''"
    by simp
  obtain r0 m0 where
    run0: "run_prompt world_a1 None None hi (new_manager ''/workspace'') = (Inr r0, m0)"
    using anonymous_scenario
    by (cases "run_prompt world_a1 None None hi (new_manager ''/workspace'')") simp
  from run_prompt_session_id [OF run0] open_a1_anonymous
  have anonymous: "session_id r0 = ''a1'' \<and> codex_session_id r0 = ''a1''"
    by simp
  from run named run0 anonymous show ?thesis by blast
qed

end
